theory Spec2Isabelle
  imports Complex_Main
begin

section \<open>Types (src/types/index.ts)\<close>

text \<open>
  JavaScript numbers are modelled as \<open>real\<close> where they hold amounts, rates and times,
  and as \<open>nat\<close> where they are counters that start at 0 and are only incremented.
  A \<open>{min, max}\<close> object is the record \<open>range\<close>; its fields are called \<open>minv\<close> and
  \<open>maxv\<close> because \<open>min\<close> and \<open>max\<close> are HOL constants.
\<close>

record range =
  minv :: real
  maxv :: real

record BotConfig =
  tokenMint :: string
  buyAmount :: range
  sellAmount :: range
  walletCount :: range
  delay :: range
  cycles :: real
  jitoTip :: real
  dryRun :: "bool option"

text \<open>The class \<open>TradingSession\<close>; its field \<open>id\<close> is called \<open>sessionId\<close> here.\<close>

record TradingSession =
  sessionId :: string
  config :: BotConfig
  startTime :: real
  endTime :: "real option"
  isActive :: bool
  totalTransactions :: nat
  successfulTransactions :: nat
  failedTransactions :: nat
  totalVolume :: real

definition new_TradingSession :: "string \<Rightarrow> BotConfig \<Rightarrow> real \<Rightarrow> TradingSession" where
  "new_TradingSession sid cfg now =
     \<lparr>sessionId = sid, config = cfg, startTime = now, endTime = None, isActive = False,
      totalTransactions = 0, successfulTransactions = 0, failedTransactions = 0,
      totalVolume = 0\<rparr>"

definition getSuccessRate :: "TradingSession \<Rightarrow> real" where
  "getSuccessRate s =
     (if TradingSession.totalTransactions s = 0 then 0
      else (real (TradingSession.successfulTransactions s)
              / real (TradingSession.totalTransactions s)) * 100)"

record TradingMetrics =
  totalTransactions :: nat
  successfulTransactions :: nat
  failedTransactions :: nat
  successRate :: real
  totalVolume :: real
  averageTransactionTime :: real
  totalFees :: real
  profitLoss :: real

record TransactionResult =
  signature :: string
  success :: bool
  error :: "string option"
  executionTime :: real
  gasUsed :: "real option"
  volume :: "real option"

datatype ErrorType =
  CONFIGURATION_ERROR | NETWORK_ERROR | TRANSACTION_ERROR | WALLET_ERROR
  | VALIDATION_ERROR | UNKNOWN_ERROR

text \<open>
  A thrown value: a plain \<open>Error\<close> with its message, a \<open>BotError\<close> (which extends
  \<open>Error\<close>) with its message and type, or a value that is no \<open>Error\<close> at all.
\<close>

datatype thrown = Error string | BotError string ErrorType | NonError

text \<open>\<open>e.message\<close>: \<open>None\<close> is JavaScript's \<open>undefined\<close>.\<close>

fun message :: "thrown \<Rightarrow> string option" where
  "message (Error m) = Some m"
| "message (BotError m t) = Some m"
| "message NonError = None"

text \<open>\<open>error instanceof Error ? error.message : 'Unknown error'\<close>\<close>

fun message_or_unknown :: "thrown \<Rightarrow> string" where
  "message_or_unknown (Error m) = m"
| "message_or_unknown (BotError m t) = m"
| "message_or_unknown NonError = ''Unknown error''"

record RetryConfig =
  maxAttempts :: nat
  baseDelay :: real
  maxDelay :: real
  backoffMultiplier :: real

definition DEFAULT_RETRY_CONFIG :: RetryConfig where
  "DEFAULT_RETRY_CONFIG =
     \<lparr>maxAttempts = 3, baseDelay = 1000, maxDelay = 10000, backoffMultiplier = 2\<rparr>"


section \<open>MetricsCollector (src/utils/MetricsCollector.ts)\<close>

record MetricsCollector =
  metrics :: TradingMetrics
  transactionTimes :: "real list"
  startTime :: real

definition zero_metrics :: TradingMetrics where
  "zero_metrics =
     \<lparr>totalTransactions = 0, successfulTransactions = 0, failedTransactions = 0,
      successRate = 0, totalVolume = 0, averageTransactionTime = 0, totalFees = 0,
      profitLoss = 0\<rparr>"

text \<open>The constructor; \<open>now\<close> is the value of \<open>new Date()\<close>.\<close>

definition new_MetricsCollector :: "real \<Rightarrow> MetricsCollector" where
  "new_MetricsCollector now =
     \<lparr>metrics = zero_metrics, transactionTimes = [], startTime = now\<rparr>"


text \<open>
  \<open>calculateSuccessRate\<close> reads \<open>this.metrics\<close> and \<open>calculateAverageTransactionTime\<close>
  reads \<open>this.transactionTimes\<close>; each takes the field it reads.
\<close>

definition calculateSuccessRate :: "TradingMetrics \<Rightarrow> real" where
  "calculateSuccessRate m =
     (if TradingMetrics.totalTransactions m = 0 then 0
      else (real (TradingMetrics.successfulTransactions m)
              / real (TradingMetrics.totalTransactions m)) * 100)"

definition calculateAverageTransactionTime :: "real list \<Rightarrow> real" where
  "calculateAverageTransactionTime tms =
     (if length tms = 0 then 0
      else foldl (\<lambda>sum time. sum + time) 0 tms / real (length tms))"

text \<open>
  \<open>if (result.volume)\<close> and \<open>if (result.gasUsed)\<close> test truthiness: the field is present
  and not 0.
\<close>

definition recordTransaction :: "MetricsCollector \<Rightarrow> TransactionResult \<Rightarrow> MetricsCollector" where
  "recordTransaction mc result =
     (let m1 = (metrics mc)\<lparr>TradingMetrics.totalTransactions :=
                               TradingMetrics.totalTransactions (metrics mc) + 1\<rparr>;
          m2 = (if success result
                then m1\<lparr>TradingMetrics.successfulTransactions :=
                          TradingMetrics.successfulTransactions m1 + 1\<rparr>
                else m1\<lparr>TradingMetrics.failedTransactions :=
                          TradingMetrics.failedTransactions m1 + 1\<rparr>);
          m3 = m2\<lparr>successRate := calculateSuccessRate m2\<rparr>;
          tms = transactionTimes mc @ [executionTime result];
          m4 = m3\<lparr>averageTransactionTime := calculateAverageTransactionTime tms\<rparr>;
          m5 = (case volume result of
                  None \<Rightarrow> m4
                | Some v \<Rightarrow>
                    if v \<noteq> 0
                    then m4\<lparr>TradingMetrics.totalVolume := TradingMetrics.totalVolume m4 + v\<rparr>
                    else m4);
          m6 = (case gasUsed result of
                  None \<Rightarrow> m5
                | Some g \<Rightarrow> if g \<noteq> 0 then m5\<lparr>totalFees := totalFees m5 + g\<rparr> else m5)
      in mc\<lparr>metrics := m6, transactionTimes := tms\<rparr>)"

definition getUptime :: "MetricsCollector \<Rightarrow> real \<Rightarrow> real" where
  "getUptime mc now = now - MetricsCollector.startTime mc"

text \<open>
  \<open>getPerformanceStats\<close> divides by the uptime; where the uptime is 0 JavaScript yields
  \<open>Infinity\<close> or \<open>NaN\<close>, which is \<open>None\<close> here. The call never throws.
\<close>

record PerformanceStats =
  transactionsPerSecond :: "real option"
  volumePerSecond :: "real option"
  stats_averageTransactionTime :: real
  stats_successRate :: real

definition getPerformanceStats :: "MetricsCollector \<Rightarrow> real \<Rightarrow> PerformanceStats" where
  "getPerformanceStats mc now =
     (let uptime = getUptime mc now / 1000 in
      \<lparr>transactionsPerSecond =
         (if uptime = 0 then None
          else Some (real (TradingMetrics.totalTransactions (metrics mc)) / uptime)),
       volumePerSecond =
         (if uptime = 0 then None
          else Some (TradingMetrics.totalVolume (metrics mc) / uptime)),
       stats_averageTransactionTime = averageTransactionTime (metrics mc),
       stats_successRate = successRate (metrics mc)\<rparr>)"

definition isHealthy :: "MetricsCollector \<Rightarrow> real \<Rightarrow> bool" where
  "isHealthy mc now =
     (let stats = getPerformanceStats mc now in
      TradingMetrics.totalTransactions (metrics mc) > 0 \<and>
      successRate (metrics mc) \<ge> 80 \<and>
      averageTransactionTime (metrics mc) \<le> 30000)"



section \<open>TransactionManager (src/managers/TransactionManager.ts)\<close>

record Keypair =
  publicKey :: string
  secretKey :: "nat list"

record TransactionInstruction =
  programId :: string
  data :: string

text \<open>
  The ledger is a collaborator: what it answers during one call of \<open>sendTransaction\<close>
  is given by an \<open>attempt_env\<close>. Each field is what the awaited call does: it throws
  (\<open>Inl\<close>) or returns; for a simulation and a confirmation the returned value is the
  \<open>value.err\<close> field, as JSON text, \<open>None\<close> when it is null.
\<close>

record attempt_env =
  getLatestBlockhash :: "thrown + (string \<times> nat)"
  simulated :: "thrown + string option"
  sent :: "thrown + string"
  confirmed :: "thrown + string option"

definition simulateTransaction :: "attempt_env \<Rightarrow> thrown + unit" where
  "simulateTransaction a =
     (case simulated a of
        Inl e \<Rightarrow> Inl e
      | Inr (Some err) \<Rightarrow>
          Inl (BotError (''Transaction simulation failed: '' @ err) TRANSACTION_ERROR)
      | Inr None \<Rightarrow> Inr ())"

definition confirmTransaction :: "attempt_env \<Rightarrow> thrown + unit" where
  "confirmTransaction a =
     (case confirmed a of
        Inl e \<Rightarrow> Inl e
      | Inr (Some err) \<Rightarrow>
          Inl (BotError (''Transaction confirmation failed: '' @ err) TRANSACTION_ERROR)
      | Inr None \<Rightarrow> Inr ())"

text \<open>
  \<open>sendTransaction\<close>: \<open>debugMode\<close> is \<open>configManager.isDebugMode()\<close>. Reading
  \<open>signers[0].publicKey\<close> of an empty signer list throws a \<open>TypeError\<close>.
\<close>

definition sendTransaction ::
  "bool \<Rightarrow> attempt_env \<Rightarrow> TransactionInstruction list \<Rightarrow> Keypair list \<Rightarrow> thrown + string" where
  "sendTransaction debugMode a instructions signers =
     (case getLatestBlockhash a of
        Inl e \<Rightarrow> Inl e
      | Inr bh \<Rightarrow>
          (case signers of
             [] \<Rightarrow> Inl (Error ''Cannot read properties of undefined (reading publicKey)'')
           | payer # others \<Rightarrow>
               (case (if debugMode then simulateTransaction a else Inr ()) of
                  Inl e \<Rightarrow> Inl e
                | Inr u \<Rightarrow>
                    (case sent a of
                       Inl e \<Rightarrow> Inl e
                     | Inr sg \<Rightarrow>
                         (case confirmTransaction a of
                            Inl e \<Rightarrow> Inl e
                          | Inr u' \<Rightarrow> Inr sg)))))"

text \<open>
  \<open>calculateRetryDelay\<close>: \<open>Math.pow\<close> with an integer exponent, which may be negative
  (\<open>powi\<close>), then \<open>Math.min\<close>.
\<close>

definition calculateRetryDelay :: "int \<Rightarrow> real" where
  "calculateRetryDelay attempt =
     (let base = baseDelay DEFAULT_RETRY_CONFIG;
          cap = maxDelay DEFAULT_RETRY_CONFIG;
          multiplier = backoffMultiplier DEFAULT_RETRY_CONFIG;
          d = base * (multiplier powi (attempt - 1))
      in min d cap)"

text \<open>A number in a template string; only natural numbers occur.\<close>

function show_nat :: "nat \<Rightarrow> string" where
  "show_nat n =
     (if n < 10 then [''0123456789'' ! n]
      else show_nat (n div 10) @ [''0123456789'' ! (n mod 10)])"
  by pat_completeness auto
termination
  by (relation "measure id") auto

declare show_nat.simps [simp del]

text \<open>\<open>`${lastError?.message}`\<close>: \<open>undefined\<close> prints as the text \<open>undefined\<close>.\<close>

definition template_message :: "thrown option \<Rightarrow> string" where
  "template_message lastError =
     (case lastError of
        None \<Rightarrow> ''undefined''
      | Some e \<Rightarrow> (case message e of None \<Rightarrow> ''undefined'' | Some m \<Rightarrow> m))"

text \<open>
  What a call of \<open>executeTransaction\<close> did: it returned a signature (\<open>Inr\<close>) or threw
  (\<open>Inl\<close>), after so many calls of \<open>sendTransaction\<close>, having slept the listed delays
  (milliseconds) between them.
\<close>

record execution =
  outcome :: "thrown + string"
  attempts :: nat
  slept :: "real list"

text \<open>
  The retry loop of \<open>executeTransaction\<close>, entered with the loop variable \<open>attempt\<close>.
  \<open>net k\<close> is what the ledger does during attempt \<open>k\<close>.
\<close>

function executeTransaction_loop ::
  "bool \<Rightarrow> (nat \<Rightarrow> attempt_env) \<Rightarrow> TransactionInstruction list \<Rightarrow> Keypair list
   \<Rightarrow> nat \<Rightarrow> thrown option \<Rightarrow> nat \<Rightarrow> real list \<Rightarrow> execution" where
  "executeTransaction_loop debugMode net instructions signers attempt lastError made sl =
     (let maxA = maxAttempts DEFAULT_RETRY_CONFIG in
      if attempt \<le> maxA then
        (case sendTransaction debugMode (net attempt) instructions signers of
           Inr sg \<Rightarrow> \<lparr>outcome = Inr sg, attempts = made + 1, slept = sl\<rparr>
         | Inl e \<Rightarrow>
             if attempt < maxA
             then executeTransaction_loop debugMode net instructions signers (attempt + 1)
                    (Some e) (made + 1) (sl @ [calculateRetryDelay (int attempt)])
             else executeTransaction_loop debugMode net instructions signers (attempt + 1)
                    (Some e) (made + 1) sl)
      else
        \<lparr>outcome =
           Inl (BotError (''Transaction failed after '' @ show_nat maxA
                            @ '' attempts: '' @ template_message lastError)
                  TRANSACTION_ERROR),
         attempts = made, slept = sl\<rparr>)"
  by pat_completeness auto
termination
  by (relation "measure (\<lambda>(d, n, i, s, attempt, l, m, sl).
        maxAttempts DEFAULT_RETRY_CONFIG + 1 - attempt)") auto

declare executeTransaction_loop.simps [simp del]

definition executeTransaction ::
  "bool \<Rightarrow> (nat \<Rightarrow> attempt_env) \<Rightarrow> TransactionInstruction list \<Rightarrow> Keypair list \<Rightarrow> execution" where
  "executeTransaction debugMode net instructions signers =
     executeTransaction_loop debugMode net instructions signers 1 None 0 []"

record Tx =
  tx_instructions :: "TransactionInstruction list"
  tx_signers :: "Keypair list"

record ParallelResult =
  p_success :: bool
  p_signature :: "string option"
  p_error :: "string option"

text \<open>
  The body of the \<open>async (tx, index)\<close> callback of \<open>executeTransactionsParallel\<close>: its
  \<open>try\<close>/\<open>catch\<close> turns what \<open>executeTransaction\<close> does into a result object.
  \<open>nets index\<close> is the ledger's behaviour towards the operation at position \<open>index\<close>.
\<close>

definition parallel_one ::
  "bool \<Rightarrow> (nat \<Rightarrow> nat \<Rightarrow> attempt_env) \<Rightarrow> nat \<times> Tx \<Rightarrow> ParallelResult" where
  "parallel_one debugMode nets p =
     (case p of (index, tx) \<Rightarrow>
        (case outcome (executeTransaction debugMode (nets index)
                         (tx_instructions tx) (tx_signers tx)) of
           Inr sg \<Rightarrow>
             \<lparr>p_success = True, p_signature = Some sg, p_error = None\<rparr>
         | Inl e \<Rightarrow>
             \<lparr>p_success = False, p_signature = None, p_error = Some (message_or_unknown e)\<rparr>))"

text \<open>
  \<open>transactions.map(async (tx, index) => ...)\<close> followed by \<open>Promise.all\<close>: no callback
  rejects, so the join returns the callbacks' values in the order of the input.
\<close>

definition executeTransactionsParallel ::
  "bool \<Rightarrow> (nat \<Rightarrow> nat \<Rightarrow> attempt_env) \<Rightarrow> Tx list \<Rightarrow> ParallelResult list" where
  "executeTransactionsParallel debugMode nets transactions =
     map (parallel_one debugMode nets) (zip [0..<length transactions] transactions)"


section \<open>The world around the engine\<close>

text \<open>
  The file system holds directories and files under paths, which are lists of
  components below the working directory. Every node has a birth time. A file holds
  the JSON text \<open>saveWallet\<close> wrote, from which the key pair can be read back
  (\<open>WalletData\<close>), or something else (\<open>Garbage\<close>), on which \<open>JSON.parse\<close> or
  \<open>Keypair.fromSecretKey\<close> throws. The list keeps the order in which \<open>readdirSync\<close>
  lists the entries.
\<close>

datatype content = WalletData Keypair | Garbage

datatype node = Dir real | File real content

type_synonym path = "string list"

type_synonym filesystem = "(path \<times> node) list"

fun birthtime :: "node \<Rightarrow> real" where
  "birthtime (Dir t) = t"
| "birthtime (File t c) = t"

definition existsSync :: "filesystem \<Rightarrow> path \<Rightarrow> bool" where
  "existsSync fs p = (map_of fs p \<noteq> None)"

definition is_dir :: "filesystem \<Rightarrow> path \<Rightarrow> bool" where
  "is_dir fs p = (case map_of fs p of Some (Dir t) \<Rightarrow> True | _ \<Rightarrow> False)"

text \<open>\<open>fs.mkdirSync(dir, {recursive: true})\<close>: creates the missing ancestors as well.\<close>

fun mkdirSync :: "real \<Rightarrow> filesystem \<Rightarrow> path \<Rightarrow> nat \<Rightarrow> filesystem" where
  "mkdirSync now fs p 0 = fs"
| "mkdirSync now fs p (Suc n) =
     (let fs' = mkdirSync now fs p n;
          q = take (Suc n) p
      in if existsSync fs' q then fs' else fs' @ [(q, Dir now)])"

text \<open>
  \<open>fs.writeFileSync(path, text)\<close> throws where the parent is no directory or the path
  is a directory; it keeps the birth time of a file it overwrites.
\<close>

definition writeFileSync :: "real \<Rightarrow> filesystem \<Rightarrow> path \<Rightarrow> content \<Rightarrow> thrown + filesystem" where
  "writeFileSync now fs p c =
     (if \<not> is_dir fs (butlast p) then Inl (Error ''ENOENT: no such file or directory'')
      else (case map_of fs p of
              Some (Dir t) \<Rightarrow> Inl (Error ''EISDIR: illegal operation on a directory'')
            | Some (File t old) \<Rightarrow> Inr (map (\<lambda>(q, n). if q = p then (q, File t c) else (q, n)) fs)
            | None \<Rightarrow> Inr (fs @ [(p, File now c)])))"

text \<open>\<open>fs.readdirSync(dir)\<close>: the names of the entries directly below \<open>dir\<close>.\<close>

definition readdirSync :: "filesystem \<Rightarrow> path \<Rightarrow> thrown + string list" where
  "readdirSync fs p =
     (case map_of fs p of
        None \<Rightarrow> Inl (Error ''ENOENT: no such file or directory'')
      | Some (File t c) \<Rightarrow> Inl (Error ''ENOTDIR: not a directory'')
      | Some (Dir t) \<Rightarrow>
          Inr (map (\<lambda>(q, n). last q)
                 (filter (\<lambda>(q, n). q \<noteq> [] \<and> butlast q = p) fs)))"

text \<open>\<open>name.endsWith(suffix)\<close>\<close>

definition endsWith :: "string \<Rightarrow> string \<Rightarrow> bool" where
  "endsWith name suffix =
     (length suffix \<le> length name \<and> drop (length name - length suffix) name = suffix)"

text \<open>
  What happens during one call of \<open>executeBuyTransaction\<close> or \<open>executeSellTransaction\<close>:
  the two readings of \<open>Date.now()\<close>, what \<open>poolManager.getSwapInstruction\<close> returns (it
  catches its own errors and returns null, here \<open>None\<close>), and the ledger's behaviour
  at each attempt.
\<close>

record op_env =
  op_start :: real
  op_end :: real
  swapInstruction :: "TransactionInstruction option"
  ledger :: "nat \<Rightarrow> attempt_env"

text \<open>The points at which \<open>executeSession\<close> is suspended and \<open>stop()\<close> may run.\<close>

datatype suspension = DuringPoolLookup | DuringCycle nat | DuringCycleDelay nat

text \<open>
  Everything the engine does not decide itself: whether \<open>getPoolInfo\<close> finds the pool
  (it returns null on any error), when \<open>stop()\<close> is called, the successive values of
  \<open>Math.random()\<close>, of the clock and of \<open>Keypair.generate()\<close>, what happens during the
  successive operations, and the debug flag.
\<close>

record env =
  poolFound :: bool
  stopRequested :: "suspension \<Rightarrow> bool"
  mathRandom :: "nat \<Rightarrow> real"
  dateNow :: "nat \<Rightarrow> real"
  generate :: "nat \<Rightarrow> Keypair"
  operation :: "nat \<Rightarrow> op_env"
  isDebugMode :: bool

text \<open>
  The trace records the timers the engine waits for, with the place of the call, and
  the two log lines that frame a trading cycle.
\<close>

datatype sleep_site = Settlement | BetweenBatches | BetweenCycles

datatype event = CycleStarted nat | CycleCompleted nat | Slept sleep_site real

text \<open>
  The mutable state: the session object, the engine's \<open>isRunning\<close> flag, the metrics
  collector, the file system, the trace, and how many values of each stream of the
  environment have been consumed.
\<close>

record state =
  session :: TradingSession
  isRunning :: bool
  metricsCollector :: MetricsCollector
  files :: filesystem
  trace :: "event list"
  draws :: nat
  clockReads :: nat
  generated :: nat
  ops :: nat


section \<open>WalletManager (src/unnamed/part_002)\<close>

definition walletsDir :: path where
  "walletsDir = [''data'', ''wallets'']"

definition backupDir :: path where
  "backupDir = [''data'', ''backup'']"

text \<open>\<open>ensureDirectories\<close>, called by the constructor.\<close>

definition ensureDirectories :: "real \<Rightarrow> filesystem \<Rightarrow> filesystem" where
  "ensureDirectories now fs =
     foldl (\<lambda>fs' dir. if \<not> existsSync fs' dir then mkdirSync now fs' dir (length dir) else fs')
       fs [walletsDir, backupDir]"

text \<open>
  \<open>saveWallet(wallet, tokenMint?)\<close>: the second parameter is optional and the body does
  not use it; \<open>path.join(this.walletsDir, filename)\<close> is the file's path.
\<close>

definition saveWallet :: "env \<Rightarrow> state \<Rightarrow> Keypair \<Rightarrow> string option \<Rightarrow> thrown + state" where
  "saveWallet e st wallet mint =
     (let createdAt = dateNow e (clockReads st);
          filename = ''wallet_'' @ publicKey wallet @ ''.json'';
          filePath = walletsDir @ [filename]
      in case writeFileSync createdAt (files st) filePath (WalletData wallet) of
           Inl err \<Rightarrow> Inl err
         | Inr fs' \<Rightarrow> Inr (st\<lparr>files := fs', clockReads := clockReads st + 1\<rparr>))"

text \<open>
  One round of the loop of \<open>createWallets\<close>: a wallet whose file cannot be written is
  logged and dropped.
\<close>

definition createWallet_step :: "env \<Rightarrow> state \<times> Keypair list \<Rightarrow> nat \<Rightarrow> state \<times> Keypair list" where
  "createWallet_step e acc i =
     (case acc of (st, wallets) \<Rightarrow>
        (let wallet = generate e (generated st);
             st1 = st\<lparr>generated := generated st + 1\<rparr>
         in case saveWallet e st1 wallet None of
              Inr st2 \<Rightarrow> (st2, wallets @ [wallet])
            | Inl err \<Rightarrow> (st1\<lparr>clockReads := clockReads st1 + 1\<rparr>, wallets)))"

text \<open>\<open>for (let i = 0; i < count; i++)\<close> with an integer \<open>count\<close>.\<close>

definition createWallets :: "env \<Rightarrow> state \<Rightarrow> int \<Rightarrow> state \<times> Keypair list" where
  "createWallets e st count = foldl (createWallet_step e) (st, []) [0..<nat count]"

text \<open>
  The body of the loop over the directory entries in \<open>getWalletsForSelling\<close>; the
  \<open>try\<close>/\<open>catch\<close> skips an entry that cannot be read as a key pair.
\<close>

definition selling_step :: "filesystem \<Rightarrow> path \<Rightarrow> real \<Rightarrow> Keypair list \<Rightarrow> string \<Rightarrow> Keypair list" where
  "selling_step fs tokenWalletsDir now wallets file =
     (if \<not> endsWith file ''.json'' then wallets
      else (case map_of fs (tokenWalletsDir @ [file]) of
              None \<Rightarrow> wallets
            | Some n \<Rightarrow>
                (let age = now - birthtime n;
                     minAge = 30000
                 in if age \<ge> minAge
                    then (case n of
                            File t (WalletData keypair) \<Rightarrow> wallets @ [keypair]
                          | _ \<Rightarrow> wallets)
                    else wallets)))"

definition getWalletsForSelling :: "env \<Rightarrow> state \<Rightarrow> string \<Rightarrow> state \<times> (thrown + Keypair list)" where
  "getWalletsForSelling e st mint =
     (let tokenWalletsDir = walletsDir @ [mint] in
      if \<not> existsSync (files st) tokenWalletsDir then (st, Inr [])
      else (case readdirSync (files st) tokenWalletsDir of
              Inl err \<Rightarrow> (st, Inl err)
            | Inr names \<Rightarrow>
                (let now = dateNow e (clockReads st)
                 in (st\<lparr>clockReads := clockReads st + 1\<rparr>,
                     Inr (foldl (selling_step (files st) tokenWalletsDir now) [] names)))))"


section \<open>TradingEngine (src/unnamed/part_002)\<close>

text \<open>
  The three random helpers; \<open>r\<close> is the value \<open>Math.random()\<close> returned to the call.
\<close>

definition getRandomAmount :: "real \<Rightarrow> range \<Rightarrow> real" where
  "getRandomAmount r rng =
     (let rangeSize = maxv rng - minv rng;
          randomValue = r * rangeSize
      in minv rng + randomValue)"

definition getRandomWalletCount :: "real \<Rightarrow> range \<Rightarrow> int" where
  "getRandomWalletCount r rng =
     (let rangeSize = maxv rng - minv rng;
          randomValue = r * rangeSize
      in \<lfloor>minv rng + randomValue\<rfloor>)"

definition getRandomDelay :: "real \<Rightarrow> range \<Rightarrow> real" where
  "getRandomDelay r rng =
     (let rangeSize = maxv rng - minv rng;
          randomValue = r * rangeSize
      in minv rng + randomValue)"

text \<open>\<open>this.delay(ms)\<close>, with the place of the call.\<close>

definition delay_ms :: "sleep_site \<Rightarrow> real \<Rightarrow> state \<Rightarrow> state" where
  "delay_ms site ms st = st\<lparr>trace := trace st @ [Slept site ms]\<rparr>"

text \<open>
  \<open>executeBuyTransaction\<close>: the body of the \<open>try\<close> throws where no swap instruction
  is returned or \<open>executeTransaction\<close> throws; the \<open>catch\<close> turns what was thrown into
  a result.
\<close>

definition executeBuyTransaction ::
  "bool \<Rightarrow> op_env \<Rightarrow> string \<Rightarrow> real \<Rightarrow> Keypair \<Rightarrow> TransactionResult" where
  "executeBuyTransaction dbg opn mint amount wallet =
     (let started = op_start opn;
          tried =
            (case swapInstruction opn of
               None \<Rightarrow> Inl (BotError ''Failed to get swap instruction'' TRANSACTION_ERROR)
             | Some ins \<Rightarrow> outcome (executeTransaction dbg (ledger opn) [ins] [wallet]))
      in case tried of
           Inr sg \<Rightarrow>
             \<lparr>signature = sg, success = True, error = None,
              executionTime = op_end opn - started, gasUsed = None, volume = Some amount\<rparr>
         | Inl err \<Rightarrow>
             \<lparr>signature = [], success = False, error = Some (message_or_unknown err),
              executionTime = op_end opn - started, gasUsed = None, volume = None\<rparr>)"

definition executeSellTransaction ::
  "bool \<Rightarrow> op_env \<Rightarrow> string \<Rightarrow> real \<Rightarrow> Keypair \<Rightarrow> TransactionResult" where
  "executeSellTransaction dbg opn mint amount wallet =
     (let started = op_start opn;
          tried =
            (case swapInstruction opn of
               None \<Rightarrow> Inl (BotError ''Failed to get sell instruction'' TRANSACTION_ERROR)
             | Some ins \<Rightarrow> outcome (executeTransaction dbg (ledger opn) [ins] [wallet]))
      in case tried of
           Inr sg \<Rightarrow>
             \<lparr>signature = sg, success = True, error = None,
              executionTime = op_end opn - started, gasUsed = None, volume = Some amount\<rparr>
         | Inl err \<Rightarrow>
             \<lparr>signature = [], success = False, error = Some (message_or_unknown err),
              executionTime = op_end opn - started, gasUsed = None, volume = None\<rparr>)"

text \<open>An element of the array \<open>Promise.allSettled\<close> resolves to.\<close>

datatype 'a settled = Fulfilled 'a | Rejected thrown

text \<open>The body of the loop over the settled results in \<open>executeBuyTransactions\<close>.\<close>

definition processBuyResult :: "real \<Rightarrow> state \<Rightarrow> TransactionResult settled \<Rightarrow> state" where
  "processBuyResult amount st res =
     (case res of
        Fulfilled v \<Rightarrow>
          (let s1 = (session st)\<lparr>TradingSession.totalTransactions :=
                                    TradingSession.totalTransactions (session st) + 1\<rparr>;
               s2 = (if success v
                     then s1\<lparr>TradingSession.successfulTransactions :=
                               TradingSession.successfulTransactions s1 + 1,
                             TradingSession.totalVolume :=
                               TradingSession.totalVolume s1 + amount\<rparr>
                     else s1\<lparr>TradingSession.failedTransactions :=
                               TradingSession.failedTransactions s1 + 1\<rparr>)
           in st\<lparr>session := s2,
                 metricsCollector := recordTransaction (metricsCollector st) v\<rparr>)
      | Rejected reason \<Rightarrow>
          st\<lparr>session := (session st)\<lparr>TradingSession.failedTransactions :=
                 TradingSession.failedTransactions (session st) + 1\<rparr>\<rparr>)"

text \<open>
  The body of the loop over the settled results in \<open>executeSellBatch\<close>;
  \<open>result.value.volume || 0\<close> is 0 where the volume is absent.
\<close>

definition processSellResult :: "state \<Rightarrow> TransactionResult settled \<Rightarrow> state" where
  "processSellResult st res =
     (case res of
        Fulfilled v \<Rightarrow>
          (let s1 = (session st)\<lparr>TradingSession.totalTransactions :=
                                    TradingSession.totalTransactions (session st) + 1\<rparr>;
               s2 = (if success v
                     then s1\<lparr>TradingSession.successfulTransactions :=
                               TradingSession.successfulTransactions s1 + 1,
                             TradingSession.totalVolume :=
                               TradingSession.totalVolume s1
                                 + (case volume v of None \<Rightarrow> 0 | Some x \<Rightarrow> x)\<rparr>
                     else s1\<lparr>TradingSession.failedTransactions :=
                               TradingSession.failedTransactions s1 + 1\<rparr>)
           in st\<lparr>session := s2,
                 metricsCollector := recordTransaction (metricsCollector st) v\<rparr>)
      | Rejected reason \<Rightarrow>
          st\<lparr>session := (session st)\<lparr>TradingSession.failedTransactions :=
                 TradingSession.failedTransactions (session st) + 1\<rparr>\<rparr>)"

text \<open>
  \<open>executeBuyTransactions\<close>: one promise per wallet, in the order of the wallets; an
  \<open>async\<close> function that returns settles as fulfilled; then the loop over the results.
  The \<open>k\<close>-th call is the operation number \<open>ops st + k\<close> of the environment.
\<close>

definition buyPromises :: "env \<Rightarrow> state \<Rightarrow> Keypair list \<Rightarrow> real \<Rightarrow> TransactionResult settled list" where
  "buyPromises e st wallets amount =
     map (\<lambda>(k, wallet).
            Fulfilled (executeBuyTransaction (isDebugMode e) (operation e (ops st + k))
                         (tokenMint (config (session st))) amount wallet))
       (zip [0..<length wallets] wallets)"

definition executeBuyTransactions :: "env \<Rightarrow> state \<Rightarrow> Keypair list \<Rightarrow> real \<Rightarrow> state" where
  "executeBuyTransactions e st wallets amount =
     (let results = buyPromises e st wallets amount;
          st1 = foldl (processBuyResult amount) st results
      in st1\<lparr>ops := ops st1 + length wallets\<rparr>)"

text \<open>
  \<open>executeSellBatch\<close>: for the \<open>k\<close>-th wallet of the batch one more value of
  \<open>Math.random()\<close> gives the amount, and one more operation is started.
\<close>

definition sellPromises :: "env \<Rightarrow> state \<Rightarrow> Keypair list \<Rightarrow> TransactionResult settled list" where
  "sellPromises e st wallets =
     map (\<lambda>(k, wallet).
            Fulfilled (executeSellTransaction (isDebugMode e) (operation e (ops st + k))
                         (tokenMint (config (session st)))
                         (getRandomAmount (mathRandom e (draws st + k))
                            (sellAmount (config (session st))))
                         wallet))
       (zip [0..<length wallets] wallets)"

definition executeSellBatch :: "env \<Rightarrow> state \<Rightarrow> Keypair list \<Rightarrow> state" where
  "executeSellBatch e st wallets =
     (let results = sellPromises e st wallets;
          st1 = foldl processSellResult st results
      in st1\<lparr>ops := ops st1 + length wallets, draws := draws st1 + length wallets\<rparr>)"

text \<open>
  The loop \<open>for (let i = 0; i < sellWallets.length; i += batchSize)\<close> of
  \<open>executeSellTransactions\<close>, entered with the loop variable \<open>i\<close>.
\<close>

function sellBatches :: "env \<Rightarrow> state \<Rightarrow> Keypair list \<Rightarrow> nat \<Rightarrow> state" where
  "sellBatches e st sellWallets i =
     (let batchSize = 5 in
      if i < length sellWallets then
        (let batch = take batchSize (drop i sellWallets);
             st1 = executeSellBatch e st batch;
             st2 = delay_ms BetweenBatches 1000 st1
         in sellBatches e st2 sellWallets (i + batchSize))
      else st)"
  by pat_completeness auto
termination
  by (relation "measure (\<lambda>(e, st, sellWallets, i). length sellWallets - i)") auto

declare sellBatches.simps [simp del]

definition executeSellTransactions :: "env \<Rightarrow> state \<Rightarrow> state \<times> (thrown + unit)" where
  "executeSellTransactions e st =
     (case getWalletsForSelling e st (tokenMint (config (session st))) of
        (st1, Inl err) \<Rightarrow> (st1, Inl err)
      | (st1, Inr sellWallets) \<Rightarrow>
          if length sellWallets = 0 then (st1, Inr ())
          else (sellBatches e st1 sellWallets 0, Inr ()))"

text \<open>\<open>stop()\<close> runs while the engine is suspended at \<open>p\<close>, if the environment says so.\<close>

definition suspended :: "env \<Rightarrow> suspension \<Rightarrow> state \<Rightarrow> state" where
  "suspended e p st = (if stopRequested e p then st\<lparr>isRunning := False\<rparr> else st)"

text \<open>
  \<open>executeTradingCycle\<close>; its \<open>catch\<close> logs and rethrows. The running flag is not read
  inside the cycle, so a call of \<open>stop()\<close> at any of its suspension points is taken
  at its end.
\<close>

definition executeTradingCycle :: "env \<Rightarrow> state \<Rightarrow> nat \<Rightarrow> state \<times> (thrown + unit)" where
  "executeTradingCycle e st cycleNumber =
     (let st0 = st\<lparr>trace := trace st @ [CycleStarted cycleNumber]\<rparr>;
          amount = getRandomAmount (mathRandom e (draws st0)) (buyAmount (config (session st0)));
          count = getRandomWalletCount (mathRandom e (draws st0 + 1))
                    (walletCount (config (session st0)));
          st1 = st0\<lparr>draws := draws st0 + 2\<rparr>;
          created = createWallets e st1 count;
          st3 = executeBuyTransactions e (fst created) (snd created) amount;
          st4 = delay_ms Settlement 5000 st3;
          sold = executeSellTransactions e st4;
          st5 = suspended e (DuringCycle cycleNumber) (fst sold)
      in case snd sold of
           Inl err \<Rightarrow> (st5, Inl err)
         | Inr u \<Rightarrow> (st5\<lparr>trace := trace st5 @ [CycleCompleted cycleNumber]\<rparr>, Inr ()))"

subsection \<open>What a trading cycle leaves unchanged\<close>

text \<open>
  No step of a cycle writes the session's configuration; the loop over the cycles
  relies on this to end.
\<close>

lemma delay_ms_session [simp]: "session (delay_ms site ms st) = session st"
  by (simp add: delay_ms_def)

lemma suspended_session [simp]: "session (suspended e p st) = session st"
  by (simp add: suspended_def)

lemma saveWallet_session: "saveWallet e st w m = Inr st' \<Longrightarrow> session st' = session st"
  by (auto simp: saveWallet_def Let_def split: sum.splits)

lemma createWallet_step_session: "session (fst (createWallet_step e acc i)) = session (fst acc)"
  by (cases acc) (auto simp: createWallet_step_def Let_def saveWallet_session split: sum.splits)

lemma createWallets_session [simp]: "session (fst (createWallets e st n)) = session st"
proof -
  have "session (fst (foldl (createWallet_step e) acc xs)) = session (fst acc)" for acc xs
    by (induction xs arbitrary: acc) (simp_all add: createWallet_step_session)
  then show ?thesis by (simp add: createWallets_def)
qed

lemma processBuyResult_config [simp]:
  "config (session (processBuyResult a st r)) = config (session st)"
  by (cases r) (simp_all add: processBuyResult_def Let_def)

lemma processSellResult_config [simp]:
  "config (session (processSellResult st r)) = config (session st)"
  by (cases r) (simp_all add: processSellResult_def Let_def)

lemma foldl_processBuyResult_config [simp]:
  "config (session (foldl (processBuyResult a) st rs)) = config (session st)"
  by (induction rs arbitrary: st) simp_all

lemma foldl_processSellResult_config [simp]:
  "config (session (foldl processSellResult st rs)) = config (session st)"
  by (induction rs arbitrary: st) simp_all

lemma executeBuyTransactions_config [simp]:
  "config (session (executeBuyTransactions e st ws a)) = config (session st)"
  by (simp add: executeBuyTransactions_def Let_def)

lemma executeSellBatch_config [simp]:
  "config (session (executeSellBatch e st ws)) = config (session st)"
  by (simp add: executeSellBatch_def Let_def)

lemma sellBatches_config [simp]:
  "config (session (sellBatches e st ws i)) = config (session st)"
proof (induction e st ws i rule: sellBatches.induct)
  case (1 e st sellWallets i)
  show ?case
  proof (cases "i < length sellWallets")
    case True
    with "1.IH" [OF refl True refl refl refl] show ?thesis
      by (subst sellBatches.simps) (simp add: Let_def)
  next
    case False
    then show ?thesis by (subst sellBatches.simps) simp
  qed
qed

lemma getWalletsForSelling_session [simp]:
  "session (fst (getWalletsForSelling e st m)) = session st"
  by (simp add: getWalletsForSelling_def Let_def split: sum.splits)

lemma executeSellTransactions_config [simp]:
  "config (session (fst (executeSellTransactions e st))) = config (session st)"
proof -
  obtain st1 r where g: "getWalletsForSelling e st (tokenMint (config (session st))) = (st1, r)"
    by (cases "getWalletsForSelling e st (tokenMint (config (session st)))")
  have "session st1 = session st"
    using getWalletsForSelling_session [of e st "tokenMint (config (session st))"] g by simp
  then show ?thesis
    by (cases r) (simp_all add: executeSellTransactions_def g)
qed

lemma executeTradingCycle_config [simp]:
  "config (session (fst (executeTradingCycle e st k))) = config (session st)"
  by (simp add: executeTradingCycle_def Let_def split: sum.splits)


subsection \<open>The session\<close>

text \<open>
  The loop \<open>for (let cycle = 0; cycle < session.config.cycles; cycle++)\<close> of
  \<open>executeSession\<close>, entered with the loop variable \<open>cycle\<close>. It ends by the loop
  condition, by the \<open>break\<close>, or by an error thrown out of the cycle. The bound is
  read from the session at every round; the loop ends because no round writes it.
\<close>

function cyclesLoop :: "env \<Rightarrow> state \<Rightarrow> nat \<Rightarrow> state \<times> (thrown + unit)" where
  "cyclesLoop e st cycle =
     (if real cycle < cycles (config (session st)) then
        (if \<not> isRunning st then (st, Inr ())
         else
           (let ran = executeTradingCycle e st (cycle + 1) in
            case snd ran of
              Inl err \<Rightarrow> (fst ran, Inl err)
            | Inr u \<Rightarrow>
                (let d = getRandomDelay (mathRandom e (draws (fst ran)))
                           (delay (config (session (fst ran))));
                     st1 = (fst ran)\<lparr>draws := draws (fst ran) + 1\<rparr>;
                     st2 = delay_ms BetweenCycles (d * 1000) st1;
                     st3 = suspended e (DuringCycleDelay (cycle + 1)) st2
                 in cyclesLoop e st3 (cycle + 1))))
      else (st, Inr ()))"
  by pat_completeness auto
termination
proof (relation "measure (\<lambda>(e, st, cycle). nat \<lceil>cycles (config (session st)) - real cycle\<rceil>)")
  show "wf (measure (\<lambda>(e, st, cycle). nat \<lceil>cycles (config (session st)) - real cycle\<rceil>))"
    by simp
next
  fix e :: env and st :: state and cycle :: nat and ran d st1 st2 st3
  assume lt: "real cycle < cycles (config (session st))"
    and ran: "ran = executeTradingCycle e st (cycle + 1)"
    and st1: "st1 = (fst ran)\<lparr>draws := draws (fst ran) + 1\<rparr>"
    and st2: "st2 = delay_ms BetweenCycles (d * 1000) st1"
    and st3: "st3 = suspended e (DuringCycleDelay (cycle + 1)) st2"
  have cfg: "config (session st3) = config (session st)"
    by (simp add: st3 st2 st1 ran)
  have "\<lceil>cycles (config (session st)) - real (cycle + 1)\<rceil>
          < \<lceil>cycles (config (session st)) - real cycle\<rceil>"
    by (simp add: ceiling_less_iff)
  moreover have "0 < \<lceil>cycles (config (session st)) - real cycle\<rceil>"
    using lt by simp
  ultimately show "((e, st3, cycle + 1), (e, st, cycle))
      \<in> measure (\<lambda>(e, st, cycle). nat \<lceil>cycles (config (session st)) - real cycle\<rceil>)"
    by (simp add: cfg)
qed

declare cyclesLoop.simps [simp del]

text \<open>
  The two assignments \<open>session.isActive = false; session.endTime = new Date()\<close>, which
  stand both at the end of the \<open>try\<close> block and in the \<open>catch\<close> block.
\<close>

definition finishSession :: "env \<Rightarrow> state \<Rightarrow> state" where
  "finishSession e st =
     st\<lparr>session := (session st)\<lparr>isActive := False,
                                 endTime := Some (dateNow e (clockReads st))\<rparr>,
        clockReads := clockReads st + 1\<rparr>"

text \<open>The \<open>try\<close> block of \<open>executeSession\<close>.\<close>

definition sessionBody :: "env \<Rightarrow> state \<Rightarrow> state \<times> (thrown + unit)" where
  "sessionBody e st =
     (let st1 = st\<lparr>session := (session st)\<lparr>isActive := True\<rparr>, isRunning := True\<rparr>;
          st2 = suspended e DuringPoolLookup st1
      in if \<not> poolFound e
         then (st2, Inl (BotError (''Pool not found for token: ''
                                     @ tokenMint (config (session st2))) VALIDATION_ERROR))
         else (case cyclesLoop e st2 0 of
                 (st3, Inl err) \<Rightarrow> (st3, Inl err)
               | (st3, Inr u) \<Rightarrow> (finishSession e st3, Inr ())))"

text \<open>
  \<open>executeSession\<close>: the \<open>try\<close> block, the \<open>catch\<close> block, which rethrows, and the
  \<open>finally\<close> block. The result is the final state and whether the call returned
  (\<open>Inr\<close>) or threw (\<open>Inl\<close>).
\<close>

definition executeSession :: "env \<Rightarrow> state \<Rightarrow> state \<times> (thrown + unit)" where
  "executeSession e st =
     (let tried = sessionBody e st;
          caught = (case snd tried of
                      Inl err \<Rightarrow> (finishSession e (fst tried), Inl err)
                    | Inr u \<Rightarrow> (fst tried, Inr ()))
      in ((fst caught)\<lparr>isRunning := False\<rparr>, snd caught))"


section \<open>Statements about a session\<close>

text \<open>The counters of a session add up.\<close>

definition counters_consistent :: "TradingSession \<Rightarrow> bool" where
  "counters_consistent s =
     (TradingSession.totalTransactions s
        = TradingSession.successfulTransactions s + TradingSession.failedTransactions s)"

text \<open>No element of a settled array is a rejection.\<close>

definition all_fulfilled :: "'a settled list \<Rightarrow> bool" where
  "all_fulfilled rs =
     list_all (\<lambda>res. case res of Fulfilled v \<Rightarrow> True | Rejected reason \<Rightarrow> False) rs"








section \<open>Concrete inputs\<close>

text \<open>
  A ledger attempt that succeeds with a given signature and one whose submission throws
  an \<open>Error\<close> with a given message, a wallet and a swap instruction; from these, the
  ledger behaviours and operations the examples below run the code on.
\<close>

definition ok_attempt :: "string \<Rightarrow> attempt_env" where
  "ok_attempt sg =
     \<lparr>getLatestBlockhash = Inr (''blockhash'', 1000), simulated = Inr None,
      sent = Inr sg, confirmed = Inr None\<rparr>"

definition failing_attempt :: "string \<Rightarrow> attempt_env" where
  "failing_attempt m =
     \<lparr>getLatestBlockhash = Inr (''blockhash'', 1000), simulated = Inr None,
      sent = Inl (Error m), confirmed = Inr None\<rparr>"

definition wallet_A :: Keypair where
  "wallet_A = \<lparr>publicKey = ''A'', secretKey = [1, 2, 3]\<rparr>"

definition swap_ins :: TransactionInstruction where
  "swap_ins = \<lparr>programId = ''mock-program-id'', data = ''mock-instruction-data''\<rparr>"




definition three_txs :: "Tx list" where
  "three_txs = replicate 3 \<lparr>tx_instructions = [swap_ins], tx_signers = [wallet_A]\<rparr>"

definition nets_middle_fails :: "nat \<Rightarrow> nat \<Rightarrow> attempt_env" where
  "nets_middle_fails index k = (if index = 1 then failing_attempt ''boom'' else ok_attempt ''sig'')"


text \<open>
  A configuration with one cycle of two wallets, and the same with two cycles; an
  environment in which the pool is found, every operation succeeds at the first attempt
  and \<open>Math.random()\<close> always returns one half, and the same environment in which
  \<open>stop()\<close> is called during the first cycle; the state in which a new engine starts
  a new session.
\<close>

definition cfg_one_cycle :: BotConfig where
  "cfg_one_cycle =
     \<lparr>tokenMint = ''MINT'', buyAmount = \<lparr>minv = 1 / 100, maxv = 1 / 100\<rparr>,
      sellAmount = \<lparr>minv = 1 / 100, maxv = 1 / 100\<rparr>, walletCount = \<lparr>minv = 2, maxv = 2\<rparr>,
      delay = \<lparr>minv = 1, maxv = 5\<rparr>, cycles = 1, jitoTip = 0, dryRun = None\<rparr>"


definition env_quiet :: env where
  "env_quiet =
     \<lparr>poolFound = True, stopRequested = (\<lambda>p. False), mathRandom = (\<lambda>n. 1 / 2),
      dateNow = (\<lambda>n. 1000 * real n),
      generate = (\<lambda>n. \<lparr>publicKey = ''K'' @ show_nat n, secretKey = [n]\<rparr>),
      operation = (\<lambda>n. \<lparr>op_start = 0, op_end = 700, swapInstruction = Some swap_ins,
                            ledger = (\<lambda>k. ok_attempt ''sig'')\<rparr>),
      isDebugMode = False\<rparr>"


definition fresh_state :: "BotConfig \<Rightarrow> state" where
  "fresh_state cfg =
     \<lparr>session = new_TradingSession ''session_0'' cfg 0, isRunning = False,
      metricsCollector = new_MetricsCollector 0, files = ensureDirectories 0 [],
      trace = [], draws = 0, clockReads = 0, generated = 0, ops = 0\<rparr>"


text \<open>
  An environment whose clock reads 0 at the first reading and 31000 afterwards, and a
  file system in which a wallet file born at 0 lies in the directory of the token.
\<close>

definition env_31s :: env where
  "env_31s = env_quiet\<lparr>dateNow := (\<lambda>n. if n = 0 then 0 else 31000)\<rparr>"

definition files_in_token_dir :: filesystem where
  "files_in_token_dir =
     ensureDirectories 0 [] @
     [(walletsDir @ [''MINT''], Dir 0),
      (walletsDir @ [''MINT'', ''wallet_A.json''], File 0 (WalletData wallet_A))]"


section \<open>Properties of the MetricsCollector\<close>













text \<open>
  C9. \<open>isHealthy()\<close> is true exactly when the recorded total is above 0, the recorded
  success rate is at least 80 and the recorded average transaction time is at most
  30000 ms, whatever the clock says when it is called.
\<close>

theorem C9_isHealthy_iff:
  "isHealthy mc now \<longleftrightarrow>
     (TradingMetrics.totalTransactions (metrics mc) > 0
      \<and> successRate (metrics mc) \<ge> 80
      \<and> averageTransactionTime (metrics mc) \<le> 30000)"
  by (simp add: isHealthy_def Let_def)



section \<open>Properties of the TransactionManager\<close>

lemma calculateRetryDelay_nat:
  "1 \<le> k \<Longrightarrow> calculateRetryDelay k = min (1000 * 2 ^ nat (k - 1)) 10000"
  by (simp add: calculateRetryDelay_def DEFAULT_RETRY_CONFIG_def Let_def power_int_def)

text \<open>
  C3. For every attempt number \<open>k \<ge> 1\<close> the retry delay is the minimum of
  \<open>baseDelay * backoffMultiplier ^ (k - 1)\<close> and \<open>maxDelay\<close>; with the default policy
  it never exceeds \<open>maxDelay\<close> and does not decrease when \<open>k\<close> grows.
\<close>

theorem C3_retry_delay:
  assumes "1 \<le> k"
  shows "calculateRetryDelay k
           = min (baseDelay DEFAULT_RETRY_CONFIG
                    * backoffMultiplier DEFAULT_RETRY_CONFIG ^ nat (k - 1))
                 (maxDelay DEFAULT_RETRY_CONFIG)
         \<and> calculateRetryDelay k \<le> maxDelay DEFAULT_RETRY_CONFIG
         \<and> (\<forall>k'. k \<le> k' \<longrightarrow> calculateRetryDelay k \<le> calculateRetryDelay k')"
proof (intro conjI allI impI)
  show "calculateRetryDelay k
          = min (baseDelay DEFAULT_RETRY_CONFIG
                   * backoffMultiplier DEFAULT_RETRY_CONFIG ^ nat (k - 1))
                (maxDelay DEFAULT_RETRY_CONFIG)"
    using assms by (simp add: calculateRetryDelay_nat DEFAULT_RETRY_CONFIG_def)
  show "calculateRetryDelay k \<le> maxDelay DEFAULT_RETRY_CONFIG"
    using assms by (simp add: calculateRetryDelay_nat DEFAULT_RETRY_CONFIG_def)
next
  fix k' :: int
  assume le: "k \<le> k'"
  with assms have k': "1 \<le> k'" by simp
  from le have "nat (k - 1) \<le> nat (k' - 1)" by simp
  then have "(2::real) ^ nat (k - 1) \<le> 2 ^ nat (k' - 1)"
    by (rule power_increasing) simp
  then have "min (1000 * (2::real) ^ nat (k - 1)) 10000 \<le> min (1000 * 2 ^ nat (k' - 1)) 10000"
    by (intro min.mono mult_left_mono) simp_all
  then show "calculateRetryDelay k \<le> calculateRetryDelay k'"
    using assms k' by (simp add: calculateRetryDelay_nat)
qed

theorem C3_retry_delay_witness:
  "calculateRetryDelay 1 = 1000 \<and> calculateRetryDelay 3 = 4000 \<and> calculateRetryDelay 5 = 10000
   \<and> calculateRetryDelay 3 \<le> calculateRetryDelay 4"
proof -
  have "(1::int) \<le> 3" by simp
  from C3_retry_delay [OF this] have
    "calculateRetryDelay 3 = 4000" "calculateRetryDelay 3 \<le> calculateRetryDelay 4"
    by (auto simp: DEFAULT_RETRY_CONFIG_def)
  moreover have "calculateRetryDelay 1 = 1000" "calculateRetryDelay 5 = 10000"
    by (simp_all add: calculateRetryDelay_nat)
  ultimately show ?thesis by simp
qed

lemma executeTransaction_unrolled:
  "executeTransaction dbg net ins kps =
     (case sendTransaction dbg (net 1) ins kps of
        Inr s \<Rightarrow> \<lparr>outcome = Inr s, attempts = 1, slept = []\<rparr>
      | Inl e1 \<Rightarrow>
          (case sendTransaction dbg (net 2) ins kps of
             Inr s \<Rightarrow> \<lparr>outcome = Inr s, attempts = 2, slept = [1000]\<rparr>
           | Inl e2 \<Rightarrow>
               (case sendTransaction dbg (net 3) ins kps of
                  Inr s \<Rightarrow> \<lparr>outcome = Inr s, attempts = 3, slept = [1000, 2000]\<rparr>
                | Inl e3 \<Rightarrow>
                    \<lparr>outcome = Inl (BotError (''Transaction failed after 3 attempts: ''
                                               @ template_message (Some e3)) TRANSACTION_ERROR),
                     attempts = 3, slept = [1000, 2000]\<rparr>)))"
proof -
  have m: "maxAttempts DEFAULT_RETRY_CONFIG = 3" by (simp add: DEFAULT_RETRY_CONFIG_def)
  have s3: "show_nat 3 = ''3''" by (simp add: show_nat.simps)
  have d1: "calculateRetryDelay (int 1) = 1000" by (simp add: calculateRetryDelay_nat)
  have d2: "calculateRetryDelay (int 2) = 2000" by (simp add: calculateRetryDelay_nat)
  have l4: "executeTransaction_loop dbg net ins kps (Suc (Suc (Suc (Suc 0)))) le md sl =
      \<lparr>outcome = Inl (BotError (''Transaction failed after 3 attempts: ''
                                 @ template_message le) TRANSACTION_ERROR),
       attempts = md, slept = sl\<rparr>" for le md sl
    by (subst executeTransaction_loop.simps) (simp add: m s3)
  have l3: "executeTransaction_loop dbg net ins kps (Suc (Suc (Suc 0))) le md sl =
      (case sendTransaction dbg (net 3) ins kps of
         Inr s \<Rightarrow> \<lparr>outcome = Inr s, attempts = md + 1, slept = sl\<rparr>
       | Inl e \<Rightarrow> executeTransaction_loop dbg net ins kps (Suc (Suc (Suc (Suc 0))))
                    (Some e) (md + 1) sl)" for le md sl
    by (subst executeTransaction_loop.simps) (simp add: m numeral_3_eq_3 split: sum.split)
  have l2: "executeTransaction_loop dbg net ins kps (Suc (Suc 0)) le md sl =
      (case sendTransaction dbg (net 2) ins kps of
         Inr s \<Rightarrow> \<lparr>outcome = Inr s, attempts = md + 1, slept = sl\<rparr>
       | Inl e \<Rightarrow> executeTransaction_loop dbg net ins kps (Suc (Suc (Suc 0)))
                    (Some e) (md + 1) (sl @ [2000]))"
    for le md sl
    using d2
    by (subst executeTransaction_loop.simps) (simp add: m numeral_2_eq_2 split: sum.split)
  have l1: "executeTransaction_loop dbg net ins kps (Suc 0) le md sl =
      (case sendTransaction dbg (net 1) ins kps of
         Inr s \<Rightarrow> \<lparr>outcome = Inr s, attempts = md + 1, slept = sl\<rparr>
       | Inl e \<Rightarrow> executeTransaction_loop dbg net ins kps (Suc (Suc 0))
                    (Some e) (md + 1) (sl @ [1000]))"
    for le md sl
    using d1 by (subst executeTransaction_loop.simps) (simp add: m split: sum.split)
  show ?thesis
    by (simp add: executeTransaction_def l1 l2 l3 l4 numeral_2_eq_2 numeral_3_eq_3
          split: sum.split)
qed

lemma sendTransaction_ok [simp]:
  "sendTransaction dbg (ok_attempt sg) ins (w # ws) = Inr sg"
  by (simp add: sendTransaction_def ok_attempt_def simulateTransaction_def confirmTransaction_def)

lemma sendTransaction_failing [simp]:
  "sendTransaction dbg (failing_attempt m) ins (w # ws) = Inl (Error m)"
  by (simp add: sendTransaction_def failing_attempt_def simulateTransaction_def)



lemma executeTransactionsParallel_nth:
  "i < length txs \<Longrightarrow>
   executeTransactionsParallel dbg nets txs ! i = parallel_one dbg nets (i, txs ! i)"
  by (simp add: executeTransactionsParallel_def)

text \<open>
  C5. \<open>executeTransactionsParallel\<close> returns one result per input operation; the
  result at position \<open>i\<close> is the one computed from operation \<open>i\<close> and the ledger's
  behaviour towards it alone: it is a success with the signature when that operation's
  \<open>executeTransaction\<close> returns, and a failure with the error's message when it
  throws, whatever the other operations do.
\<close>

theorem C5_parallel_results:
  "length (executeTransactionsParallel dbg nets txs) = length txs
   \<and> (\<forall>i < length txs.
         executeTransactionsParallel dbg nets txs ! i = parallel_one dbg nets (i, txs ! i)
         \<and> (p_success (executeTransactionsParallel dbg nets txs ! i)
              \<longleftrightarrow> (\<exists>sg. outcome (executeTransaction dbg (nets i)
                                     (tx_instructions (txs ! i)) (tx_signers (txs ! i)))
                            = Inr sg))
         \<and> (\<forall>sg. outcome (executeTransaction dbg (nets i)
                           (tx_instructions (txs ! i)) (tx_signers (txs ! i))) = Inr sg
                \<longrightarrow> p_signature (executeTransactionsParallel dbg nets txs ! i) = Some sg)
         \<and> (\<forall>err. outcome (executeTransaction dbg (nets i)
                            (tx_instructions (txs ! i)) (tx_signers (txs ! i))) = Inl err
                \<longrightarrow> p_error (executeTransactionsParallel dbg nets txs ! i)
                     = Some (message_or_unknown err)))"
proof (intro conjI allI impI)
  show "length (executeTransactionsParallel dbg nets txs) = length txs"
    by (simp add: executeTransactionsParallel_def)
next
  fix i assume i: "i < length txs"
  show "executeTransactionsParallel dbg nets txs ! i = parallel_one dbg nets (i, txs ! i)"
    using i by (rule executeTransactionsParallel_nth)
  show "p_success (executeTransactionsParallel dbg nets txs ! i)
          \<longleftrightarrow> (\<exists>sg. outcome (executeTransaction dbg (nets i)
                                 (tx_instructions (txs ! i)) (tx_signers (txs ! i))) = Inr sg)"
    using i by (simp add: executeTransactionsParallel_nth parallel_one_def split: sum.split)
next
  fix i sg assume "i < length txs"
    and "outcome (executeTransaction dbg (nets i)
                    (tx_instructions (txs ! i)) (tx_signers (txs ! i))) = Inr sg"
  then show "p_signature (executeTransactionsParallel dbg nets txs ! i) = Some sg"
    by (simp add: executeTransactionsParallel_nth parallel_one_def)
next
  fix i err assume "i < length txs"
    and "outcome (executeTransaction dbg (nets i)
                    (tx_instructions (txs ! i)) (tx_signers (txs ! i))) = Inl err"
  then show "p_error (executeTransactionsParallel dbg nets txs ! i)
               = Some (message_or_unknown err)"
    by (simp add: executeTransactionsParallel_nth parallel_one_def)
qed

theorem C5_parallel_results_witness:
  "length (executeTransactionsParallel False nets_middle_fails three_txs) = 3
   \<and> map p_success (executeTransactionsParallel False nets_middle_fails three_txs)
       = [True, False, True]"
proof -
  note t = C5_parallel_results [of False nets_middle_fails three_txs]
  have len: "length three_txs = 3" by (simp add: three_txs_def)
  have tx: "three_txs ! i = \<lparr>tx_instructions = [swap_ins], tx_signers = [wallet_A]\<rparr>"
    if "i < 3" for i using that by (simp add: three_txs_def)
  have o0: "outcome (executeTransaction False (nets_middle_fails 0) [swap_ins] [wallet_A]) = Inr ''sig''"
    by (simp add: executeTransaction_unrolled nets_middle_fails_def)
  have o1: "outcome (executeTransaction False (nets_middle_fails 1) [swap_ins] [wallet_A])
              = Inl (BotError ''Transaction failed after 3 attempts: boom'' TRANSACTION_ERROR)"
    by (simp add: executeTransaction_unrolled nets_middle_fails_def template_message_def)
  have o2: "outcome (executeTransaction False (nets_middle_fails 2) [swap_ins] [wallet_A]) = Inr ''sig''"
    by (simp add: executeTransaction_unrolled nets_middle_fails_def)
  have l: "length (executeTransactionsParallel False nets_middle_fails three_txs) = 3"
    using t len by simp
  have s0: "p_success (executeTransactionsParallel False nets_middle_fails three_txs ! 0)"
    using t [THEN conjunct2, rule_format, of 0, THEN conjunct2, THEN conjunct1] len tx [of 0] o0 by simp
  have s1: "\<not> p_success (executeTransactionsParallel False nets_middle_fails three_txs ! 1)"
    using t [THEN conjunct2, rule_format, of 1, THEN conjunct2, THEN conjunct1] len tx [of 1] o1 by simp
  have s2: "p_success (executeTransactionsParallel False nets_middle_fails three_txs ! 2)"
    using t [THEN conjunct2, rule_format, of 2, THEN conjunct2, THEN conjunct1] len tx [of 2] o2 by simp
  have three: "map p_success xs = [p_success (xs ! 0), p_success (xs ! 1), p_success (xs ! 2)]"
    if "length xs = 3" for xs :: "ParallelResult list"
    using that by (auto simp: numeral_3_eq_3 length_Suc_conv)
  show ?thesis
    using l s0 s1 s2 three [OF l] by simp
qed


section \<open>Properties of the TradingEngine\<close>

text \<open>
  C8. On a range with \<open>min = max = v\<close> the random amount is \<open>v\<close>, and on an integer
  range with \<open>min = max = n\<close> the random wallet count is \<open>n\<close>, whatever value
  \<open>Math.random()\<close> returns.
\<close>

theorem C8_degenerate_range:
  "getRandomAmount r \<lparr>minv = v, maxv = v\<rparr> = v
   \<and> getRandomWalletCount r \<lparr>minv = of_int n, maxv = of_int n\<rparr> = n"
  by (simp add: getRandomAmount_def getRandomWalletCount_def)




lemma processBuyResult_consistent:
  "counters_consistent (session st) \<Longrightarrow>
   counters_consistent (session (processBuyResult a st (Fulfilled v)))"
  by (simp add: processBuyResult_def counters_consistent_def Let_def)

lemma processSellResult_consistent:
  "counters_consistent (session st) \<Longrightarrow>
   counters_consistent (session (processSellResult st (Fulfilled v)))"
  by (simp add: processSellResult_def counters_consistent_def Let_def)

lemma foldl_processBuyResult_consistent:
  "all_fulfilled rs \<Longrightarrow> counters_consistent (session st) \<Longrightarrow>
   counters_consistent (session (foldl (processBuyResult a) st rs))"
proof (induction rs arbitrary: st)
  case Nil
  then show ?case by simp
next
  case (Cons r rs)
  then show ?case
    by (cases r) (simp_all add: all_fulfilled_def processBuyResult_consistent)
qed

lemma foldl_processSellResult_consistent:
  "all_fulfilled rs \<Longrightarrow> counters_consistent (session st) \<Longrightarrow>
   counters_consistent (session (foldl processSellResult st rs))"
proof (induction rs arbitrary: st)
  case Nil
  then show ?case by simp
next
  case (Cons r rs)
  then show ?case
    by (cases r) (simp_all add: all_fulfilled_def processSellResult_consistent)
qed

lemma buyPromises_fulfilled: "all_fulfilled (buyPromises e st ws a)"
  by (simp add: all_fulfilled_def buyPromises_def list_all_iff split_def)

lemma sellPromises_fulfilled: "all_fulfilled (sellPromises e st ws)"
  by (simp add: all_fulfilled_def sellPromises_def list_all_iff split_def)

lemma executeBuyTransactions_consistent:
  "counters_consistent (session st) \<Longrightarrow>
   counters_consistent (session (executeBuyTransactions e st ws a))"
  by (simp add: executeBuyTransactions_def Let_def
        foldl_processBuyResult_consistent buyPromises_fulfilled)

lemma executeSellBatch_consistent:
  "counters_consistent (session st) \<Longrightarrow>
   counters_consistent (session (executeSellBatch e st ws))"
  by (simp add: executeSellBatch_def Let_def
        foldl_processSellResult_consistent sellPromises_fulfilled)

lemma sellBatches_consistent:
  "counters_consistent (session st) \<Longrightarrow>
   counters_consistent (session (sellBatches e st ws i))"
proof (induction e st ws i rule: sellBatches.induct)
  case (1 e st sellWallets i)
  show ?case
  proof (cases "i < length sellWallets")
    case True
    have "counters_consistent
            (session (delay_ms BetweenBatches 1000
                        (executeSellBatch e st (take 5 (drop i sellWallets)))))"
      using "1.prems" by (simp add: executeSellBatch_consistent)
    from "1.IH" [OF refl True refl refl refl this] True show ?thesis
      by (subst sellBatches.simps) (simp add: Let_def)
  next
    case False
    with "1.prems" show ?thesis by (subst sellBatches.simps) simp
  qed
qed

lemma executeSellTransactions_consistent:
  assumes "counters_consistent (session st)"
  shows "counters_consistent (session (fst (executeSellTransactions e st)))"
proof -
  obtain st1 r where g: "getWalletsForSelling e st (tokenMint (config (session st))) = (st1, r)"
    by (cases "getWalletsForSelling e st (tokenMint (config (session st)))")
  have "session st1 = session st"
    using getWalletsForSelling_session [of e st "tokenMint (config (session st))"] g by simp
  with assms have "counters_consistent (session st1)" by simp
  then show ?thesis
    by (cases r) (simp_all add: executeSellTransactions_def g sellBatches_consistent)
qed

lemma executeTradingCycle_consistent:
  assumes "counters_consistent (session st)"
  shows "counters_consistent (session (fst (executeTradingCycle e st k)))"
proof -
  define st1 where "st1 = st\<lparr>trace := trace st @ [CycleStarted k], draws := draws st + 2\<rparr>"
  define amount where
    "amount = getRandomAmount (mathRandom e (draws st)) (buyAmount (config (session st)))"
  define count where
    "count = getRandomWalletCount (mathRandom e (draws st + 1)) (walletCount (config (session st)))"
  define created where "created = createWallets e st1 count"
  define st4 where
    "st4 = delay_ms Settlement 5000 (executeBuyTransactions e (fst created) (snd created) amount)"
  have "counters_consistent (session (fst created))"
    using assms by (simp add: created_def st1_def)
  then have "counters_consistent (session st4)"
    by (simp add: st4_def executeBuyTransactions_consistent)
  then have "counters_consistent (session (fst (executeSellTransactions e st4)))"
    by (rule executeSellTransactions_consistent)
  then show ?thesis
    by (simp add: executeTradingCycle_def Let_def st4_def created_def st1_def amount_def
          count_def split: sum.split)
qed

lemma cyclesLoop_consistent:
  "counters_consistent (session st) \<Longrightarrow>
   counters_consistent (session (fst (cyclesLoop e st c)))"
proof (induction e st c rule: cyclesLoop.induct)
  case (1 e st cycle)
  show ?case
  proof (cases "real cycle < cycles (config (session st)) \<and> isRunning st")
    case False
    with "1.prems" show ?thesis by (subst cyclesLoop.simps) auto
  next
    case True
    define ran where "ran = executeTradingCycle e st (cycle + 1)"
    have r: "counters_consistent (session (fst ran))"
      unfolding ran_def using "1.prems" by (rule executeTradingCycle_consistent)
    from True have lt: "real cycle < cycles (config (session st))"
      and run: "\<not> \<not> isRunning st" by simp_all
    show ?thesis
    proof (cases "snd ran")
      case (Inl err)
      with True r show ?thesis
        unfolding ran_def by (subst cyclesLoop.simps) (simp add: Let_def)
    next
      case (Inr u)
      have "counters_consistent (session (suspended e (DuringCycleDelay (cycle + 1))
              (delay_ms BetweenCycles
                 (getRandomDelay (mathRandom e (draws (fst ran)))
                    (delay (config (session (fst ran)))) * 1000)
                 ((fst ran)\<lparr>draws := draws (fst ran) + 1\<rparr>))))"
        using r by simp
      from "1.IH" [OF lt run ran_def Inr refl refl refl refl this] True Inr show ?thesis
        unfolding ran_def by (subst cyclesLoop.simps) (simp add: Let_def)
    qed
  qed
qed

lemma finishSession_consistent:
  "counters_consistent (session (finishSession e st)) = counters_consistent (session st)"
  by (simp add: finishSession_def counters_consistent_def)

lemma sessionBody_consistent:
  assumes "counters_consistent (session st)"
  shows "counters_consistent (session (fst (sessionBody e st)))"
proof -
  define st2 where "st2 = suspended e DuringPoolLookup
        (st\<lparr>session := (session st)\<lparr>isActive := True\<rparr>, isRunning := True\<rparr>)"
  have "counters_consistent (session st2)"
    using assms by (simp add: st2_def counters_consistent_def)
  then have c: "counters_consistent (session (fst (cyclesLoop e st2 0)))"
    by (rule cyclesLoop_consistent)
  show ?thesis
    using c \<open>counters_consistent (session st2)\<close>
    by (cases "cyclesLoop e st2 0"; cases "snd (cyclesLoop e st2 0)")
       (auto simp: sessionBody_def Let_def st2_def [symmetric] finishSession_consistent)
qed

text \<open>
  C1. Every promise of a buy or sell batch settles as fulfilled, and a session whose
  counters add up when \<open>executeSession\<close> starts, as those of a new session do, has
  counters that add up when it ends, however it ends.
\<close>

theorem C1_counters_consistent:
  "all_fulfilled (buyPromises e st' wallets amount)
   \<and> all_fulfilled (sellPromises e st' wallets)
   \<and> (counters_consistent (session st)
        \<longrightarrow> counters_consistent (session (fst (executeSession e st))))"
proof (intro conjI impI)
  assume "counters_consistent (session st)"
  then have "counters_consistent (session (fst (sessionBody e st)))"
    by (rule sessionBody_consistent)
  then show "counters_consistent (session (fst (executeSession e st)))"
    by (cases "snd (sessionBody e st)")
       (simp_all add: executeSession_def Let_def finishSession_consistent)
qed (rule buyPromises_fulfilled sellPromises_fulfilled)+

theorem C1_counters_consistent_witness:
  "counters_consistent (session (fresh_state cfg_one_cycle))
   \<and> counters_consistent (session (fst (executeSession env_quiet (fresh_state cfg_one_cycle))))
   \<and> TradingSession.totalTransactions
        (session (fst (executeSession env_quiet (fresh_state cfg_one_cycle)))) = 2
   \<and> getSuccessRate (session (fst (executeSession env_quiet (fresh_state cfg_one_cycle)))) = 100"
proof -
  have f: "counters_consistent (session (fresh_state cfg_one_cycle))"
    by (simp add: counters_consistent_def fresh_state_def new_TradingSession_def)
  have n: "TradingSession.totalTransactions
        (session (fst (executeSession env_quiet (fresh_state cfg_one_cycle)))) = 2"
    by code_simp
  have r: "getSuccessRate (session (fst (executeSession env_quiet (fresh_state cfg_one_cycle)))) = 100"
    by code_simp
  from C1_counters_consistent [of env_quiet "fresh_state cfg_one_cycle" "[]" 0 "fresh_state cfg_one_cycle"]
    f n r show ?thesis by simp
qed




lemma createWallet_step_trace: "trace (fst (createWallet_step e acc i)) = trace (fst acc)"
  by (cases acc) (auto simp: createWallet_step_def Let_def saveWallet_def split: sum.splits)

lemma createWallets_trace [simp]: "trace (fst (createWallets e st n)) = trace st"
proof -
  have "trace (fst (foldl (createWallet_step e) acc xs)) = trace (fst acc)" for acc xs
    by (induction xs arbitrary: acc) (simp_all add: createWallet_step_trace)
  then show ?thesis by (simp add: createWallets_def)
qed

lemma processBuyResult_trace [simp]: "trace (processBuyResult a st r) = trace st"
  by (cases r) (simp_all add: processBuyResult_def Let_def)

lemma processSellResult_trace [simp]: "trace (processSellResult st r) = trace st"
  by (cases r) (simp_all add: processSellResult_def Let_def)

lemma foldl_processBuyResult_trace [simp]:
  "trace (foldl (processBuyResult a) st rs) = trace st"
  by (induction rs arbitrary: st) simp_all

lemma foldl_processSellResult_trace [simp]:
  "trace (foldl processSellResult st rs) = trace st"
  by (induction rs arbitrary: st) simp_all

lemma executeBuyTransactions_trace [simp]:
  "trace (executeBuyTransactions e st ws a) = trace st"
  by (simp add: executeBuyTransactions_def Let_def)

lemma executeSellBatch_trace [simp]: "trace (executeSellBatch e st ws) = trace st"
  by (simp add: executeSellBatch_def Let_def)













section \<open>Properties of the WalletManager\<close>

text \<open>
  C2, at a concrete input. One wallet is created on a new data directory when the clock
  reads 0; its file is written to \<open>data/wallets/wallet_K0.json\<close>. Asked 31 seconds later,
  \<open>getWalletsForSelling\<close> looks into \<open>data/wallets/MINT\<close>, which does not exist, and
  returns no wallet.
\<close>

theorem C2_created_wallet_not_eligible:
  "snd (createWallets env_31s (fresh_state cfg_one_cycle) 1)
     = [\<lparr>publicKey = ''K0'', secretKey = [0]\<rparr>]
   \<and> map_of (files (fst (createWallets env_31s (fresh_state cfg_one_cycle) 1)))
        [''data'', ''wallets'', ''wallet_K0.json'']
     = Some (File 0 (WalletData \<lparr>publicKey = ''K0'', secretKey = [0]\<rparr>))
   \<and> dateNow env_31s (clockReads (fst (createWallets env_31s (fresh_state cfg_one_cycle) 1)))
     = 31000
   \<and> snd (getWalletsForSelling env_31s
             (fst (createWallets env_31s (fresh_state cfg_one_cycle) 1)) ''MINT'')
     = Inr []"
  by code_simp

text \<open>
  The same whenever the wallet is created and whenever the question is asked.
\<close>

lemma created_wallet_never_eligible:
  "snd (getWalletsForSelling (env_quiet\<lparr>dateNow := (\<lambda>n. if n = 0 then T else later)\<rparr>)
          (fst (createWallets (env_quiet\<lparr>dateNow := (\<lambda>n. if n = 0 then T else later)\<rparr>)
                  (fresh_state cfg_one_cycle) 1)) ''MINT'') = Inr []"
  by code_simp

text \<open>
  A wallet file that does lie in the directory of the token is left out 29 seconds
  after its birth and returned 31 seconds after it.
\<close>

lemma token_dir_threshold:
  "snd (getWalletsForSelling (env_quiet\<lparr>dateNow := (\<lambda>n. 29000)\<rparr>)
          ((fresh_state cfg_one_cycle)\<lparr>files := files_in_token_dir\<rparr>) ''MINT'') = Inr []
   \<and> snd (getWalletsForSelling (env_quiet\<lparr>dateNow := (\<lambda>n. 31000)\<rparr>)
          ((fresh_state cfg_one_cycle)\<lparr>files := files_in_token_dir\<rparr>) ''MINT'') = Inr [wallet_A]"
  by code_simp

end
